theory Spec2Isabelle
  imports Main "HOL-Library.AList"
begin

section \<open>The batching coordinator\<close>

text \<open>
  The module state is the flag \<^verbatim>\<open>isBatching\<close>; \<open>host\<close> is everything else a callback
  or a collaborator can change. \<open>trace\<close> lists, in order, the writes of the flag and the
  calls to the collaborators that \<^verbatim>\<open>batchedUpdates\<close> makes.
\<close>

datatype call =
    SetIsBatching bool
  | NeedsStateRestore
  | FlushInteractiveUpdates
  | RestoreStateIfNeeded

record 'h coordinator =
  isBatching :: bool
  host :: 'h
  trace :: "call list"

datatype 'v outcome = Returned 'v | Thrown 'v

type_synonym ('h, 'v) action = "'h coordinator \<Rightarrow> 'v outcome \<times> 'h coordinator"

text \<open>
  The three injected functions, and the two imports from
  \<^verbatim>\<open>ReactControlledComponent\<close>, whose code is not part of the module. The flush and
  the two imports are parameters that act on the host state and return or throw;
  \<^verbatim>\<open>needsStateRestore\<close> is a query. They are taken not to call back into
  \<^verbatim>\<open>batchedUpdates\<close>. The wiring is the same for the whole of a call: the
  specification has it injected once, before any batch.
\<close>

record ('h, 'b, 'v) wiring =
  batchedUpdatesImpl :: "('b \<Rightarrow> ('h, 'v) action) \<Rightarrow> 'b \<Rightarrow> ('h, 'v) action"
  interactiveUpdatesImpl :: "('b \<Rightarrow> 'b \<Rightarrow> ('h, 'v) action) \<Rightarrow> 'b \<Rightarrow> 'b \<Rightarrow> ('h, 'v) action"
  flushInteractiveUpdatesImpl :: "'h \<Rightarrow> 'v outcome \<times> 'h"
  needsStateRestore :: "'h \<Rightarrow> 'v + bool"
  restoreStateIfNeeded :: "'h \<Rightarrow> 'v outcome \<times> 'h"

text \<open>
  The defaults of the module; \<open>undef\<close> is the value \<^verbatim>\<open>undefined\<close>, which the default
  flush returns.
\<close>

definition default_wiring ::
  "'v \<Rightarrow> ('h \<Rightarrow> 'v + bool) \<Rightarrow> ('h \<Rightarrow> 'v outcome \<times> 'h) \<Rightarrow> ('h, 'b, 'v) wiring" where
  "default_wiring undef needs restore =
     \<lparr>batchedUpdatesImpl = (\<lambda>fn bookkeeping. fn bookkeeping),
      interactiveUpdatesImpl = (\<lambda>fn a b. fn a b),
      flushInteractiveUpdatesImpl = (\<lambda>h. (Returned undef, h)),
      needsStateRestore = needs,
      restoreStateIfNeeded = restore\<rparr>"

definition setBatchingImplementation ::
  "('h, 'b, 'v) wiring
    \<Rightarrow> (('b \<Rightarrow> ('h, 'v) action) \<Rightarrow> 'b \<Rightarrow> ('h, 'v) action)
    \<Rightarrow> (('b \<Rightarrow> 'b \<Rightarrow> ('h, 'v) action) \<Rightarrow> 'b \<Rightarrow> 'b \<Rightarrow> ('h, 'v) action)
    \<Rightarrow> ('h \<Rightarrow> 'v outcome \<times> 'h) \<Rightarrow> ('h, 'b, 'v) wiring" where
  "setBatchingImplementation w batchedUpdatesImpl' interactiveUpdatesImpl' flushInteractiveUpdatesImpl' =
     w\<lparr>batchedUpdatesImpl := batchedUpdatesImpl',
       interactiveUpdatesImpl := interactiveUpdatesImpl',
       flushInteractiveUpdatesImpl := flushInteractiveUpdatesImpl'\<rparr>"

text \<open>
  \<^verbatim>\<open>batchedUpdates\<close>. The \<^verbatim>\<open>finally\<close> block runs whether the injected function
  returned or threw. When the block completes, the outcome of the \<^verbatim>\<open>try\<close> block is the
  outcome of the call; when a call in the block throws, that exception is.
\<close>

definition batchedUpdates ::
  "('h, 'b, 'v) wiring \<Rightarrow> ('b \<Rightarrow> ('h, 'v) action) \<Rightarrow> 'b \<Rightarrow> ('h, 'v) action" where
  "batchedUpdates w fn bookkeeping s =
     (if isBatching s then fn bookkeeping s
      else
        (let s1 = s\<lparr>isBatching := True, trace := trace s @ [SetIsBatching True]\<rparr>;
             (r, s2) = batchedUpdatesImpl w fn bookkeeping s1;
             s3 = s2\<lparr>isBatching := False, trace := trace s2 @ [SetIsBatching False]\<rparr>;
             s4 = s3\<lparr>trace := trace s3 @ [NeedsStateRestore]\<rparr>
         in case needsStateRestore w (host s3) of
              Inl e \<Rightarrow> (Thrown e, s4)
            | Inr controlledComponentsHavePendingUpdates \<Rightarrow>
                if controlledComponentsHavePendingUpdates then
                  (let (flushed, h5) = flushInteractiveUpdatesImpl w (host s4);
                       s5 = s4\<lparr>host := h5, trace := trace s4 @ [FlushInteractiveUpdates]\<rparr>
                   in case flushed of
                        Thrown e \<Rightarrow> (Thrown e, s5)
                      | Returned u \<Rightarrow>
                          (let (restored, h6) = restoreStateIfNeeded w (host s5);
                               s6 = s5\<lparr>host := h6, trace := trace s5 @ [RestoreStateIfNeeded]\<rparr>
                           in case restored of
                                Thrown e \<Rightarrow> (Thrown e, s6)
                              | Returned u' \<Rightarrow> (r, s6)))
                else (r, s4)))"

definition interactiveUpdates ::
  "('h, 'b, 'v) wiring \<Rightarrow> ('b \<Rightarrow> 'b \<Rightarrow> ('h, 'v) action) \<Rightarrow> 'b \<Rightarrow> 'b \<Rightarrow> ('h, 'v) action" where
  "interactiveUpdates w fn a b = interactiveUpdatesImpl w fn a b"

definition flushInteractiveUpdates :: "('h, 'b, 'v) wiring \<Rightarrow> 'h \<Rightarrow> 'v outcome \<times> 'h" where
  "flushInteractiveUpdates w = flushInteractiveUpdatesImpl w"

text \<open>
  What a callback does, as far as the coordinator can see: it returns, throws, changes
  the host state, or calls \<^verbatim>\<open>batchedUpdates\<close> again (\<open>Batched fn bookkeeping k\<close>) and
  goes on with \<open>k\<close> of that call's outcome; an exception that is not caught is
  \<open>k (Thrown e) = Throw e\<close>.
\<close>

datatype ('h, 'b, 'v) task =
    Return 'v
  | Throw 'v
  | Effect "'h \<Rightarrow> 'h" "('h, 'b, 'v) task"
  | Batched "'b \<Rightarrow> ('h, 'b, 'v) task" 'b "'v outcome \<Rightarrow> ('h, 'b, 'v) task"

primrec exec :: "('h, 'b, 'v) task \<Rightarrow> ('h, 'b, 'v) wiring \<Rightarrow> ('h, 'v) action" where
  "exec (Return v) w = (\<lambda>s. (Returned v, s))"
| "exec (Throw e) w = (\<lambda>s. (Thrown e, s))"
| "exec (Effect f t) w = (\<lambda>s. exec t w (s\<lparr>host := f (host s)\<rparr>))"
| "exec (Batched fn bookkeeping k) w =
     (\<lambda>s. case batchedUpdates w (\<lambda>b. exec (fn b) w) bookkeeping s of
             (r, s') \<Rightarrow> exec (k r) w s')"

section \<open>JavaScript values and host objects\<close>

text \<open>
  The values that flow through \<^verbatim>\<open>SyntheticEvent.js\<close>. Numbers are only copied and
  tested for truthiness, so integers stand for them. \<open>Obj\<close> is a reference to a host
  object (a native event, a DOM node, a dispatch configuration), \<open>Func\<close> a host function.
  \<open>HostUnknown\<close> is the member of an old Internet Explorer host object whose
  \<^verbatim>\<open>typeof\<close> is \<^verbatim>\<open>'unknown'\<close>; the source tests for it.
\<close>

datatype jsval =
    Undefined
  | Null
  | Bool bool
  | Num int
  | Str string
  | Obj nat
  | Func nat
  | HostUnknown

datatype error =
    TypeError
  | Invariant string
  | Raised jsval

fun truthy :: "jsval \<Rightarrow> bool" where
  "truthy Undefined = False"
| "truthy Null = False"
| "truthy (Bool b) = b"
| "truthy (Num n) = (n \<noteq> 0)"
| "truthy (Str s) = (s \<noteq> [])"
| "truthy (Obj a) = True"
| "truthy (Func f) = True"
| "truthy HostUnknown = True"

fun typeof :: "jsval \<Rightarrow> string" where
  "typeof Undefined = ''undefined''"
| "typeof Null = ''object''"
| "typeof (Bool b) = ''boolean''"
| "typeof (Num n) = ''number''"
| "typeof (Str s) = ''string''"
| "typeof (Obj a) = ''object''"
| "typeof (Func f) = ''function''"
| "typeof HostUnknown = ''unknown''"

text \<open>
  The \<^verbatim>\<open>nativeEvent\<close> argument is documented as an object
  (\<^verbatim>\<open>@param {object} nativeEvent\<close>); a caller can still pass \<^verbatim>\<open>null\<close> or
  \<^verbatim>\<open>undefined\<close>, and \<^verbatim>\<open>destructor\<close> stores \<^verbatim>\<open>null\<close> in the slot.
\<close>

datatype nativeref = NUndefined | NNull | NObj nat

fun truthy_ref :: "nativeref \<Rightarrow> bool" where
  "truthy_ref NUndefined = False"
| "truthy_ref NNull = False"
| "truthy_ref (NObj a) = True"

text \<open>
  A host object has named properties; a property that is absent reads as
  \<^verbatim>\<open>undefined\<close>. \<open>unwritable\<close> holds the names whose assignment throws in strict
  code (all names of a frozen object, the new names of a non-extensible one, the
  read-only ones). Its methods are code of the host: a call is recorded in \<open>calls\<close>,
  in order, and \<open>raises\<close> gives the exception a method throws, if it throws.
\<close>

record host_obj =
  props :: "string \<rightharpoonup> jsval"
  calls :: "string list"
  unwritable :: "string set"
  raises :: "string \<rightharpoonup> jsval"

type_synonym heap = "nat \<Rightarrow> host_obj"

text \<open>Reading \<^verbatim>\<open>ref[name]\<close>: a TypeError on \<^verbatim>\<open>null\<close> and \<^verbatim>\<open>undefined\<close>.\<close>

fun get_prop :: "heap \<Rightarrow> nativeref \<Rightarrow> string \<Rightarrow> error + jsval" where
  "get_prop h NUndefined name = Inl TypeError"
| "get_prop h NNull name = Inl TypeError"
| "get_prop h (NObj a) name =
     Inr (case props (h a) name of None \<Rightarrow> Undefined | Some v \<Rightarrow> v)"

text \<open>Writing \<^verbatim>\<open>ref[name] = v\<close> in strict code.\<close>

fun set_prop :: "heap \<Rightarrow> nativeref \<Rightarrow> string \<Rightarrow> jsval \<Rightarrow> error + heap" where
  "set_prop h NUndefined name v = Inl TypeError"
| "set_prop h NNull name v = Inl TypeError"
| "set_prop h (NObj a) name v =
     (if name \<in> unwritable (h a) then Inl TypeError
      else Inr (h(a := (h a)\<lparr>props := (props (h a))(name \<mapsto> v)\<rparr>)))"

text \<open>
  Calling \<^verbatim>\<open>ref.name()\<close>: a TypeError when the property is not a function; else the
  host method runs (the call is recorded) and returns or throws. The result is the
  exception, if any, and the heap after the call.
\<close>

fun call_method :: "heap \<Rightarrow> nativeref \<Rightarrow> string \<Rightarrow> error option \<times> heap" where
  "call_method h NUndefined name = (Some TypeError, h)"
| "call_method h NNull name = (Some TypeError, h)"
| "call_method h (NObj a) name =
     (case props (h a) name of
        Some (Func f) \<Rightarrow>
          (case raises (h a) name of
             Some e \<Rightarrow> (Some (Raised e), h(a := (h a)\<lparr>calls := calls (h a) @ [name]\<rparr>))
           | None \<Rightarrow> (None, h(a := (h a)\<lparr>calls := calls (h a) @ [name]\<rparr>)))
      | _ \<Rightarrow> (Some TypeError, h))"

section \<open>The descriptor table\<close>

text \<open>
  An \<^verbatim>\<open>Interface\<close> object maps a property name to \<^verbatim>\<open>null\<close> (\<open>None\<close>: copy the
  native field) or to a normalizer function of the native event. The entries are kept
  in the order \<^verbatim>\<open>for ... in\<close> enumerates them. A normalizer reads the host heap and
  the clock (\<^verbatim>\<open>Date.now()\<close>) and may throw. The constructor calls a function of the
  table with the native event; when the table has an entry named
  \<^verbatim>\<open>hasOwnProperty\<close>, the loop's test calls that entry with the property name.
\<close>

datatype js_arg = ArgEvent nativeref | ArgName string

type_synonym normalizer = "heap \<Rightarrow> int \<Rightarrow> js_arg \<Rightarrow> error + jsval"

type_synonym interface = "(string \<times> normalizer option) list"

definition EventInterface :: interface where
  "EventInterface =
    [(''type'', None),
     (''target'', None),
     (''currentTarget'', Some (\<lambda>h now event. Inr Null)),
     (''eventPhase'', None),
     (''bubbles'', None),
     (''cancelable'', None),
     (''timeStamp'', Some (\<lambda>h now event.
        case event of
          ArgEvent e \<Rightarrow>
            (case get_prop h e ''timeStamp'' of
               Inl x \<Rightarrow> Inl x
             | Inr t \<Rightarrow> Inr (if truthy t then t else Num now))
        | ArgName n \<Rightarrow> Inr (Num now))),
     (''defaultPrevented'', None),
     (''isTrusted'', None)]"

datatype predicate = functionThatReturnsTrue | functionThatReturnsFalse

fun invoke :: "predicate \<Rightarrow> bool" where
  "invoke functionThatReturnsTrue = True"
| "invoke functionThatReturnsFalse = False"

section \<open>Synthetic event instances\<close>

text \<open>
  An instance has its own slots and, in \<open>event_fields\<close>, the properties named by the
  descriptor table of its class (and \<^verbatim>\<open>defaultPrevented\<close>, which
  \<^verbatim>\<open>preventDefault\<close> writes). \<open>constructor_id\<close> is \<^verbatim>\<open>this.constructor\<close>, the
  class the instance was allocated by. The source keeps the slots, the methods and the
  table's properties in one object; here they are apart, which is the code's behaviour
  for a table that names none of \<open>reserved_names\<close>. Every statement below about the
  fields or the slots of an instance is made for such tables only.
\<close>

definition reserved_names :: "string list" where
  "reserved_names =
     [''dispatchConfig'', ''_targetInst'', ''nativeEvent'', ''isDefaultPrevented'',
      ''isPropagationStopped'', ''isPersistent'', ''_dispatchListeners'',
      ''_dispatchInstances'', ''constructor'', ''preventDefault'', ''stopPropagation'',
      ''persist'', ''destructor'', ''hasOwnProperty'', ''__proto__'']"

definition plain_table :: "interface \<Rightarrow> bool" where
  "plain_table I = list_all (\<lambda>entry. fst entry \<notin> set reserved_names) I"

record synth_event =
  constructor_id :: nat
  dispatchConfig :: jsval
  targetInst :: jsval
  nativeEvent :: nativeref
  event_fields :: "string \<rightharpoonup> jsval"
  isDefaultPrevented :: predicate
  isPropagationStopped :: predicate
  isPersistent :: predicate
  dispatchListeners :: jsval
  dispatchInstances :: jsval

text \<open>
  The loop's test \<^verbatim>\<open>Interface.hasOwnProperty(propName)\<close>, for a name the loop
  enumerates: the method of \<^verbatim>\<open>Object.prototype\<close> answers true, unless the table has an
  entry named \<^verbatim>\<open>hasOwnProperty\<close>, which is then what is called.
\<close>

definition hasOwnProperty :: "heap \<Rightarrow> int \<Rightarrow> interface \<Rightarrow> string \<Rightarrow> error + bool" where
  "hasOwnProperty h now Interface propName =
     (case map_of Interface ''hasOwnProperty'' of
        None \<Rightarrow> Inr True
      | Some None \<Rightarrow> Inl TypeError
      | Some (Some f) \<Rightarrow>
          (case f h now (ArgName propName) of
             Inl e \<Rightarrow> Inl e
           | Inr v \<Rightarrow> Inr (truthy v)))"

text \<open>The body of the constructor's loop for one entry: the value stored under the name.\<close>

definition field_value ::
  "heap \<Rightarrow> int \<Rightarrow> nativeref \<Rightarrow> jsval \<Rightarrow> string \<Rightarrow> normalizer option \<Rightarrow> error + jsval" where
  "field_value h now nativeEvent' nativeEventTarget propName normalize' =
     (case normalize' of
        Some f \<Rightarrow> f h now (ArgEvent nativeEvent')
      | None \<Rightarrow>
          if propName = ''target'' then Inr nativeEventTarget
          else get_prop h nativeEvent' propName)"

text \<open>
  The loop over the entries of the table \<open>Interface\<close>. It stops at the first entry
  that throws; the properties written before stay written.
\<close>

fun populate ::
  "heap \<Rightarrow> int \<Rightarrow> nativeref \<Rightarrow> jsval \<Rightarrow> interface \<Rightarrow> interface \<Rightarrow> (string \<rightharpoonup> jsval)
    \<Rightarrow> error option \<times> (string \<rightharpoonup> jsval)" where
  "populate h now ne nt Interface [] fs = (None, fs)"
| "populate h now ne nt Interface ((propName, normalize') # rest) fs =
     (case hasOwnProperty h now Interface propName of
        Inl e \<Rightarrow> (Some e, fs)
      | Inr False \<Rightarrow> populate h now ne nt Interface rest fs
      | Inr True \<Rightarrow>
          (case field_value h now ne nt propName normalize' of
             Inl e \<Rightarrow> (Some e, fs)
           | Inr v \<Rightarrow> populate h now ne nt Interface rest (fs(propName \<mapsto> v))))"

text \<open>
  The constructor, run on \<open>this\<close> with the table of \<^verbatim>\<open>this.constructor\<close>. The result
  is the error thrown (if any) and \<open>this\<close> as the call left it.
\<close>

definition SyntheticEvent ::
  "interface \<Rightarrow> heap \<Rightarrow> int \<Rightarrow> synth_event \<Rightarrow> jsval \<Rightarrow> jsval \<Rightarrow> nativeref \<Rightarrow> jsval
    \<Rightarrow> error option \<times> synth_event" where
  "SyntheticEvent Interface h now this dispatchConfig' targetInst' nativeEvent' nativeEventTarget =
     (let this1 = this\<lparr>dispatchConfig := dispatchConfig',
                       targetInst := targetInst',
                       nativeEvent := nativeEvent'\<rparr>
      in case populate h now nativeEvent' nativeEventTarget Interface Interface
                (event_fields this1) of
           (Some e, fs) \<Rightarrow> (Some e, this1\<lparr>event_fields := fs\<rparr>)
         | (None, fs) \<Rightarrow>
             (let this2 = this1\<lparr>event_fields := fs\<rparr>
              in case get_prop h nativeEvent' ''defaultPrevented'' of
                   Inl e \<Rightarrow> (Some e, this2)
                 | Inr dp \<Rightarrow>
                     (case (if dp \<noteq> Undefined \<and> dp \<noteq> Null then Inr dp
                            else (case get_prop h nativeEvent' ''returnValue'' of
                                    Inl e \<Rightarrow> Inl e
                                  | Inr rv \<Rightarrow> Inr (Bool (rv = Bool False)))) of
                        Inl e \<Rightarrow> (Some e, this2)
                      | Inr defaultPrevented \<Rightarrow>
                          (None,
                           this2\<lparr>isDefaultPrevented :=
                                    (if truthy defaultPrevented then functionThatReturnsTrue
                                     else functionThatReturnsFalse),
                                  isPropagationStopped := functionThatReturnsFalse\<rparr>))))"

subsection \<open>Methods of the prototype\<close>

text \<open>
  Each method takes \<open>this\<close> and the host heap and gives the error thrown (if any),
  \<open>this\<close> and the heap afterwards.
\<close>

definition preventDefault ::
  "synth_event \<Rightarrow> heap \<Rightarrow> error option \<times> synth_event \<times> heap" where
  "preventDefault this h =
     (let this1 = this\<lparr>event_fields := (event_fields this)(''defaultPrevented'' \<mapsto> Bool True)\<rparr>;
          event = nativeEvent this1
      in if \<not> truthy_ref event then (None, this1, h)
         else
           (case get_prop h event ''preventDefault'' of
              Inl e \<Rightarrow> (Some e, this1, h)
            | Inr m \<Rightarrow>
                if truthy m then
                  (case call_method h event ''preventDefault'' of
                     (Some e, h1) \<Rightarrow> (Some e, this1, h1)
                   | (None, h1) \<Rightarrow>
                       (None, this1\<lparr>isDefaultPrevented := functionThatReturnsTrue\<rparr>, h1))
                else
                  (case get_prop h event ''returnValue'' of
                     Inl e \<Rightarrow> (Some e, this1, h)
                   | Inr rv \<Rightarrow>
                       if typeof rv \<noteq> ''unknown'' then
                         (case set_prop h event ''returnValue'' (Bool False) of
                            Inl e \<Rightarrow> (Some e, this1, h)
                          | Inr h1 \<Rightarrow>
                              (None, this1\<lparr>isDefaultPrevented := functionThatReturnsTrue\<rparr>, h1))
                       else
                         (None, this1\<lparr>isDefaultPrevented := functionThatReturnsTrue\<rparr>, h))))"

definition stopPropagation ::
  "synth_event \<Rightarrow> heap \<Rightarrow> error option \<times> synth_event \<times> heap" where
  "stopPropagation this h =
     (let event = nativeEvent this
      in if \<not> truthy_ref event then (None, this, h)
         else
           (case get_prop h event ''stopPropagation'' of
              Inl e \<Rightarrow> (Some e, this, h)
            | Inr m \<Rightarrow>
                if truthy m then
                  (case call_method h event ''stopPropagation'' of
                     (Some e, h1) \<Rightarrow> (Some e, this, h1)
                   | (None, h1) \<Rightarrow>
                       (None, this\<lparr>isPropagationStopped := functionThatReturnsTrue\<rparr>, h1))
                else
                  (case get_prop h event ''cancelBubble'' of
                     Inl e \<Rightarrow> (Some e, this, h)
                   | Inr cb \<Rightarrow>
                       if typeof cb \<noteq> ''unknown'' then
                         (case set_prop h event ''cancelBubble'' (Bool True) of
                            Inl e \<Rightarrow> (Some e, this, h)
                          | Inr h1 \<Rightarrow>
                              (None, this\<lparr>isPropagationStopped := functionThatReturnsTrue\<rparr>, h1))
                       else
                         (None, this\<lparr>isPropagationStopped := functionThatReturnsTrue\<rparr>, h))))"

definition persist :: "synth_event \<Rightarrow> synth_event" where
  "persist this = this\<lparr>isPersistent := functionThatReturnsTrue\<rparr>"

text \<open>
  \<^verbatim>\<open>destructor\<close> stores \<^verbatim>\<open>null\<close> under every name of the table, then resets the slots;
  it does not touch \<^verbatim>\<open>isPersistent\<close>. The table's names go to \<open>event_fields\<close> and the
  slots are separate record fields, so the definition follows the source for tables
  that name none of \<open>reserved_names\<close> (\<open>plain_table\<close>): for a table naming, say,
  \<^verbatim>\<open>isPersistent\<close> or \<^verbatim>\<open>destructor\<close>, the loop of the source overwrites that property
  of the instance, which this record does not show. The statements about release and
  reuse carry \<open>plain_table\<close> as a hypothesis.
\<close>

definition destructor :: "interface \<Rightarrow> synth_event \<Rightarrow> synth_event" where
  "destructor Interface this =
     this\<lparr>event_fields := fold (\<lambda>(propName, normalize') fs. fs(propName \<mapsto> Null)) Interface (event_fields this),
          dispatchConfig := Null,
          targetInst := Null,
          nativeEvent := NNull,
          isDefaultPrevented := functionThatReturnsFalse,
          isPropagationStopped := functionThatReturnsFalse,
          dispatchListeners := Null,
          dispatchInstances := Null\<rparr>"

section \<open>Event classes, extension and pooling\<close>

text \<open>
  A class (a constructor function) carries its descriptor table and its pool; the pool
  is a JavaScript array of instances, here of their addresses (\<^verbatim>\<open>push\<close> appends,
  \<^verbatim>\<open>pop\<close> takes the last). \<open>proto_chain\<close> lists the classes whose
  \<^verbatim>\<open>prototype\<close> lies on the prototype chain of an instance of the class: the class
  itself, then its \<^verbatim>\<open>Super\<close>, and so on; \<^verbatim>\<open>instanceof\<close> walks it.
\<close>

record event_class =
  Interface :: interface
  eventPool :: "nat list"
  proto_chain :: "nat list"

text \<open>
  The classes and the instances that exist. A class is named by its position in
  \<open>classes\<close>, an instance by its position in \<open>instances\<close> (its identity).
\<close>

record world =
  classes :: "event_class list"
  instances :: "synth_event list"

definition EVENT_POOL_SIZE :: nat where
  "EVENT_POOL_SIZE = 10"

definition addEventPoolingTo :: "event_class \<Rightarrow> event_class" where
  "addEventPoolingTo EventConstructor = EventConstructor\<lparr>eventPool := []\<rparr>"

text \<open>The module's last statements: the base class with its table and an empty pool.\<close>

definition initial_world :: world where
  "initial_world =
     \<lparr>classes = [addEventPoolingTo
                   \<lparr>Interface = EventInterface, eventPool = [], proto_chain = [0]\<rparr>],
      instances = []\<rparr>"

text \<open>
  \<^verbatim>\<open>Object.assign(target, source)\<close>: the entries of the source in their order; a name
  the target has keeps its place and takes the new value, a new name goes to the end.
  This is the code's behaviour for names other than \<^verbatim>\<open>__proto__\<close> (whose assignment
  sets the prototype) and other than integer-like names (which are enumerated first).
\<close>

definition object_assign :: "('k \<times> 'v) list \<Rightarrow> ('k \<times> 'v) list \<Rightarrow> ('k \<times> 'v) list" where
  "object_assign target source = fold (\<lambda>(k, v). AList.update k v) source target"

definition extend :: "world \<Rightarrow> nat \<Rightarrow> interface \<Rightarrow> (error + nat) \<times> world" where
  "extend w Super Interface' =
     (if \<not> Super < length (classes w) then (Inl TypeError, w)
      else
        (let Class = length (classes w);
             C = addEventPoolingTo
                   \<lparr>Interface =
                      object_assign (object_assign [] (Interface (classes w ! Super))) Interface',
                    eventPool = [],
                    proto_chain = Class # proto_chain (classes w ! Super)\<rparr>
         in (Inr Class, w\<lparr>classes := classes w @ [C]\<rparr>)))"

text \<open>The object that \<^verbatim>\<open>new\<close> hands to the constructor: no own property yet.\<close>

definition new_object :: "nat \<Rightarrow> synth_event" where
  "new_object Class =
     \<lparr>constructor_id = Class,
      dispatchConfig = Undefined,
      targetInst = Undefined,
      nativeEvent = NUndefined,
      event_fields = Map.empty,
      isDefaultPrevented = functionThatReturnsFalse,
      isPropagationStopped = functionThatReturnsFalse,
      isPersistent = functionThatReturnsFalse,
      dispatchListeners = Undefined,
      dispatchInstances = Undefined\<rparr>"

text \<open>
  Calling a class on \<open>this\<close>: every class made by \<^verbatim>\<open>extend\<close> applies its
  \<^verbatim>\<open>Super\<close>, down to \<^verbatim>\<open>SyntheticEvent\<close>, which reads the table of
  \<^verbatim>\<open>this.constructor\<close>.
\<close>

definition construct ::
  "world \<Rightarrow> heap \<Rightarrow> int \<Rightarrow> synth_event \<Rightarrow> jsval \<Rightarrow> jsval \<Rightarrow> nativeref \<Rightarrow> jsval
    \<Rightarrow> error option \<times> synth_event" where
  "construct w h now this dispatchConfig' targetInst' nativeEvent' nativeInst =
     (if \<not> constructor_id this < length (classes w) then (Some TypeError, this)
      else SyntheticEvent (Interface (classes w ! constructor_id this)) h now this
             dispatchConfig' targetInst' nativeEvent' nativeInst)"

definition getPooledEvent ::
  "world \<Rightarrow> heap \<Rightarrow> int \<Rightarrow> nat \<Rightarrow> jsval \<Rightarrow> jsval \<Rightarrow> nativeref \<Rightarrow> jsval
    \<Rightarrow> (error + nat) \<times> world" where
  "getPooledEvent w h now EventConstructor dispatchConfig' targetInst' nativeEvent' nativeInst =
     (if \<not> EventConstructor < length (classes w) then (Inl TypeError, w)
      else if eventPool (classes w ! EventConstructor) \<noteq> [] then
        (let C = classes w ! EventConstructor;
             inst = last (eventPool C);
             w1 = w\<lparr>classes := (classes w)[EventConstructor := C\<lparr>eventPool := butlast (eventPool C)\<rparr>]\<rparr>
         in if \<not> inst < length (instances w1) then (Inl TypeError, w1)
            else
              (case construct w1 h now (instances w1 ! inst)
                      dispatchConfig' targetInst' nativeEvent' nativeInst of
                 (Some e, this) \<Rightarrow> (Inl e, w1\<lparr>instances := (instances w1)[inst := this]\<rparr>)
               | (None, this) \<Rightarrow> (Inr inst, w1\<lparr>instances := (instances w1)[inst := this]\<rparr>)))
      else
        (case construct w h now (new_object EventConstructor)
                dispatchConfig' targetInst' nativeEvent' nativeInst of
           (Some e, this) \<Rightarrow> (Inl e, w)
         | (None, this) \<Rightarrow> (Inr (length (instances w)), w\<lparr>instances := instances w @ [this]\<rparr>)))"

text \<open>What \<^verbatim>\<open>release\<close> can be handed: a synthetic event instance or any other value.\<close>

datatype js_ref = EventInstance nat | Other jsval

definition instanceof :: "world \<Rightarrow> js_ref \<Rightarrow> nat \<Rightarrow> bool" where
  "instanceof w event EventConstructor =
     (case event of
        EventInstance a \<Rightarrow>
          a < length (instances w) \<and>
          constructor_id (instances w ! a) < length (classes w) \<and>
          EventConstructor \<in> set (proto_chain (classes w ! constructor_id (instances w ! a)))
      | Other v \<Rightarrow> False)"

definition releasePooledEvent :: "world \<Rightarrow> nat \<Rightarrow> js_ref \<Rightarrow> error option \<times> world" where
  "releasePooledEvent w EventConstructor event =
     (if \<not> instanceof w event EventConstructor then
        (Some (Invariant ''Trying to release an event instance into a pool of a different type.''), w)
      else
        (case event of
           Other v \<Rightarrow> (Some TypeError, w)
         | EventInstance a \<Rightarrow>
             (let this = instances w ! a;
                  w1 = w\<lparr>instances :=
                          (instances w)[a := destructor (Interface (classes w ! constructor_id this)) this]\<rparr>
              in if \<not> EventConstructor < length (classes w1) then (Some TypeError, w1)
                 else if length (eventPool (classes w1 ! EventConstructor)) < EVENT_POOL_SIZE then
                   (None,
                    w1\<lparr>classes :=
                         (classes w1)[EventConstructor :=
                            (classes w1 ! EventConstructor)
                              \<lparr>eventPool := eventPool (classes w1 ! EventConstructor) @ [a]\<rparr>]\<rparr>)
                 else (None, w1))))"

section \<open>Definitions used in the statements\<close>

text \<open>
  The default-prevention state of a native event in the words of the specification:
  its \<^verbatim>\<open>defaultPrevented\<close> field if present (neither absent, \<^verbatim>\<open>undefined\<close> nor
  \<^verbatim>\<open>null\<close>), else whether its \<^verbatim>\<open>returnValue\<close> is \<^verbatim>\<open>false\<close>.
\<close>

definition default_prevention_state :: "heap \<Rightarrow> nat \<Rightarrow> jsval" where
  "default_prevention_state h a =
     (case props (h a) ''defaultPrevented'' of
        None \<Rightarrow> Bool (props (h a) ''returnValue'' = Some (Bool False))
      | Some dp \<Rightarrow>
          if dp = Null \<or> dp = Undefined
          then Bool (props (h a) ''returnValue'' = Some (Bool False))
          else dp)"

text \<open>Heaps for the examples: every object empty, and every object a legacy native event.\<close>

definition empty_heap :: heap where
  "empty_heap =
     (\<lambda>a. \<lparr>props = Map.empty, calls = [], unwritable = {}, raises = Map.empty\<rparr>)"

definition legacy_native :: heap where
  "legacy_native =
     (\<lambda>a. \<lparr>props = [''returnValue'' \<mapsto> Bool False], calls = [], unwritable = {}, raises = Map.empty\<rparr>)"

text \<open>The value read from a property of the host object at an address.\<close>

definition native_prop :: "heap \<Rightarrow> nat \<Rightarrow> string \<Rightarrow> jsval" where
  "native_prop h a name = (case props (h a) name of None \<Rightarrow> Undefined | Some v \<Rightarrow> v)"

text \<open>
  What the mutators need from the host. \<open>host_call_returns\<close>: the property is a
  function and the host method does not throw. \<open>native_cooperates\<close>, for a method name
  and the name of its legacy field: the method, if the property is truthy, can be called
  and returns; if it is not truthy, the legacy field can be written, or its
  \<^verbatim>\<open>typeof\<close> is \<^verbatim>\<open>'unknown'\<close> (then the source does not write it).
\<close>

definition host_call_returns :: "heap \<Rightarrow> nat \<Rightarrow> string \<Rightarrow> bool" where
  "host_call_returns h a name =
     (case props (h a) name of
        Some (Func f) \<Rightarrow> raises (h a) name = None
      | _ \<Rightarrow> False)"

definition native_cooperates :: "heap \<Rightarrow> nat \<Rightarrow> string \<Rightarrow> string \<Rightarrow> bool" where
  "native_cooperates h a method field =
     (if truthy (native_prop h a method) then host_call_returns h a method
      else typeof (native_prop h a field) = ''unknown'' \<or> field \<notin> unwritable (h a))"

text \<open>
  The heap a mutator leaves when the host cooperates: the method was called, or the
  legacy field was written, or (\<^verbatim>\<open>typeof\<close> \<^verbatim>\<open>'unknown'\<close>) nothing was done.
\<close>

definition after_mutator :: "heap \<Rightarrow> nat \<Rightarrow> string \<Rightarrow> string \<Rightarrow> jsval \<Rightarrow> heap" where
  "after_mutator h a method field v =
     (if truthy (native_prop h a method)
      then h(a := (h a)\<lparr>calls := calls (h a) @ [method]\<rparr>)
      else if typeof (native_prop h a field) \<noteq> ''unknown''
      then h(a := (h a)\<lparr>props := (props (h a))(field \<mapsto> v)\<rparr>)
      else h)"

text \<open>
  A heap whose objects have a truthy \<^verbatim>\<open>preventDefault\<close> that is not a function, no
  \<^verbatim>\<open>stopPropagation\<close>, and are frozen.
\<close>

definition stubborn_heap :: heap where
  "stubborn_heap =
     (\<lambda>a. \<lparr>props = [''preventDefault'' \<mapsto> Bool True], calls = [], unwritable = UNIV,
            raises = Map.empty\<rparr>)"

text \<open>
  Two instances of the base class for the examples: one as the constructor returns it
  for an empty native event, and one that was acquired from the pool and released
  (\<^verbatim>\<open>e = SyntheticEvent.getPooled(null, null, {}, null); SyntheticEvent.release(e)\<close>).
\<close>

definition attached_event :: synth_event where
  "attached_event =
     snd (SyntheticEvent EventInterface empty_heap 0 (new_object 0) Null Null (NObj 0) Null)"

definition released_event :: synth_event where
  "released_event =
     instances
       (snd (releasePooledEvent
               (snd (getPooledEvent initial_world empty_heap 0 0 Null Null (NObj 0) Null))
               0 (EventInstance 0))) ! 0"

text \<open>
  Sequences of pool operations. An operation that throws leaves the world as it was at
  the throw, and the sequence goes on.
\<close>

datatype pool_op =
    Acquire heap int nat jsval jsval nativeref jsval
  | Release nat js_ref
  | Extend nat interface

fun step :: "world \<Rightarrow> pool_op \<Rightarrow> world" where
  "step w (Acquire h now C dc ti ne ni) = snd (getPooledEvent w h now C dc ti ne ni)"
| "step w (Release C event) = snd (releasePooledEvent w C event)"
| "step w (Extend Super I) = snd (extend w Super I)"

definition run :: "world \<Rightarrow> pool_op list \<Rightarrow> world" where
  "run w ops = foldl step w ops"

definition pool_of :: "world \<Rightarrow> nat \<Rightarrow> nat list" where
  "pool_of w C = eventPool (classes w ! C)"

definition pools_bounded :: "world \<Rightarrow> bool" where
  "pools_bounded w = list_all (\<lambda>C. length (eventPool C) \<le> EVENT_POOL_SIZE) (classes w)"




text \<open>
  Worlds for the examples. \<open>persisted_world\<close>: an instance of the base class was
  acquired and \<^verbatim>\<open>persist()\<close> was called on it. \<open>sibling_world\<close>: the base class was
  extended twice, to the classes 1 and 2, and an instance of class 1 was acquired.
  \<open>ten_released\<close>: eleven instances of the base class were acquired and the first ten
  of them released.
\<close>

definition persisted_world :: world where
  "persisted_world =
     (let w1 = snd (getPooledEvent initial_world empty_heap 0 0 Null Null (NObj 0) Null)
      in w1\<lparr>instances := (instances w1)[0 := persist (instances w1 ! 0)]\<rparr>)"

definition sibling_world :: world where
  "sibling_world =
     run initial_world
       [Extend 0 [(''key'', None)], Extend 0 [(''button'', None)],
        Acquire empty_heap 0 1 Null Null (NObj 0) Null]"

definition fill_ops :: "pool_op list" where
  "fill_ops =
     replicate 11 (Acquire empty_heap 0 0 Null Null (NObj 0) Null) @
     map (\<lambda>a. Release 0 (EventInstance a)) [0..<10]"

definition ten_released :: world where
  "ten_released = run initial_world fill_ops"
















text \<open>
  One restoration check made in a host state, in the words of the specification: the
  query, and if it is true the flush followed by the restoration. \<open>check_calls\<close> lists
  the calls it makes (a call that throws ends it) and \<open>check_throws\<close> is the exception
  it ends with, if any.
\<close>

definition check_calls :: "('h, 'b, 'v) wiring \<Rightarrow> 'h \<Rightarrow> call list" where
  "check_calls w h =
     NeedsStateRestore #
     (case needsStateRestore w h of
        Inl e \<Rightarrow> []
      | Inr pending \<Rightarrow>
          if pending then
            FlushInteractiveUpdates #
            (case fst (flushInteractiveUpdatesImpl w h) of
               Thrown e \<Rightarrow> []
             | Returned u \<Rightarrow> [RestoreStateIfNeeded])
          else [])"

definition check_throws :: "('h, 'b, 'v) wiring \<Rightarrow> 'h \<Rightarrow> 'v option" where
  "check_throws w h =
     (case needsStateRestore w h of
        Inl e \<Rightarrow> Some e
      | Inr pending \<Rightarrow>
          if pending then
            (case flushInteractiveUpdatesImpl w h of
               (Thrown e, h') \<Rightarrow> Some e
             | (Returned u, h') \<Rightarrow>
                 (case fst (restoreStateIfNeeded w h') of
                    Thrown e \<Rightarrow> Some e
                  | Returned u' \<Rightarrow> None))
          else None)"


text \<open>
  Examples for the coordinator: the default wiring with a collaborator that always
  reports pending work; a callback that calls \<^verbatim>\<open>batchedUpdates\<close> with a function that
  throws, and does not catch; a callback that returns its argument; a wiring whose
  \<^verbatim>\<open>batchedUpdatesImpl\<close> returns 42 without calling the function; a wiring whose
  \<^verbatim>\<open>restoreStateIfNeeded\<close> throws 13.
\<close>

definition sample_wiring :: "(string list, nat, nat) wiring" where
  "sample_wiring = default_wiring 0 (\<lambda>h. Inr True) (\<lambda>h. (Returned 0, h @ [''restore'']))"

definition nested_throw :: "nat \<Rightarrow> (string list, nat, nat) task" where
  "nested_throw b =
     Effect (\<lambda>h. h @ [''f1''])
       (Batched (\<lambda>b. Effect (\<lambda>h. h @ [''f2'']) (Throw b)) (b + 1)
          (\<lambda>r. case r of Returned v \<Rightarrow> Return v | Thrown e \<Rightarrow> Throw e))"

definition idle :: "string list coordinator" where
  "idle = \<lparr>isBatching = False, host = [], trace = []\<rparr>"

definition echo :: "nat \<Rightarrow> (string list, nat) action" where
  "echo b s = (Returned b, s)"

definition failing_wiring :: "(string list, nat, nat) wiring" where
  "failing_wiring = default_wiring 0 (\<lambda>h. Inr True) (\<lambda>h. (Thrown 13, h))"

definition constant_wiring :: "(string list, nat, nat) wiring" where
  "constant_wiring =
     setBatchingImplementation sample_wiring
       (\<lambda>fn bookkeeping s. (Returned 42, s)) (\<lambda>fn a b. fn a b) (\<lambda>h. (Returned 0, h))"

section \<open>Properties\<close>

subsection \<open>Construction\<close>

lemma hasOwnProperty_plain:
  "''hasOwnProperty'' \<notin> fst ` set I \<Longrightarrow> hasOwnProperty h now I name = Inr True"
proof -
  assume "''hasOwnProperty'' \<notin> fst ` set I"
  then have "map_of I ''hasOwnProperty'' = None"
    by (simp add: map_of_eq_None_iff)
  then show ?thesis
    by (simp add: hasOwnProperty_def)
qed

lemma populate_object:
  "\<forall>(name, rule) \<in> set es. \<forall>f. rule = Some f \<longrightarrow> (\<exists>v. f h now (ArgEvent (NObj a)) = Inr v)
    \<Longrightarrow> ''hasOwnProperty'' \<notin> fst ` set I
    \<Longrightarrow> fst (populate h now (NObj a) nt I es fs) = None"
  by (induction es arbitrary: fs)
     (auto simp: field_value_def hasOwnProperty_plain split: option.splits sum.splits)

text \<open>
  Claim C2. When the constructor returns, the native event is an object, and
  \<^verbatim>\<open>isDefaultPrevented\<close> is \<^verbatim>\<open>functionThatReturnsTrue\<close> exactly when the
  default-prevention state of the native event (its \<^verbatim>\<open>defaultPrevented\<close> field if
  present, else \<^verbatim>\<open>returnValue === false\<close>) is truthy, and \<^verbatim>\<open>functionThatReturnsFalse\<close>
  otherwise; \<^verbatim>\<open>isPropagationStopped\<close> is \<^verbatim>\<open>functionThatReturnsFalse\<close>. This holds for
  every descriptor table and every \<open>this\<close> the constructor is run on.
\<close>

theorem default_prevention_at_construction:
  assumes "SyntheticEvent I h now this dc ti ne nt = (None, this')"
  shows "\<exists>a. ne = NObj a \<and>
     invoke (isDefaultPrevented this') = truthy (default_prevention_state h a) \<and>
     isDefaultPrevented this' =
       (if truthy (default_prevention_state h a) then functionThatReturnsTrue
        else functionThatReturnsFalse) \<and>
     isPropagationStopped this' = functionThatReturnsFalse"
  using assms
  by (cases ne)
     (auto simp: SyntheticEvent_def default_prevention_state_def Let_def
           split: prod.splits option.splits sum.splits if_splits)

text \<open>
  The scenario of the specification: a native event without \<^verbatim>\<open>defaultPrevented\<close> and
  with \<^verbatim>\<open>returnValue === false\<close>; the base class constructs, and
  \<^verbatim>\<open>isDefaultPrevented()\<close> is true.
\<close>

theorem default_prevention_at_construction_witness:
  "fst (SyntheticEvent EventInterface legacy_native 0 (new_object 0) Null Null (NObj 0) Null) = None \<and>
   default_prevention_state legacy_native 0 = Bool True \<and>
   invoke (isDefaultPrevented
     (snd (SyntheticEvent EventInterface legacy_native 0 (new_object 0) Null Null (NObj 0) Null)))"
proof -
  let ?r = "SyntheticEvent EventInterface legacy_native 0 (new_object 0) Null Null (NObj 0) Null"
  have ok: "fst ?r = None"
    by (simp add: SyntheticEvent_def EventInterface_def field_value_def legacy_native_def
          hasOwnProperty_def)
  then have "?r = (None, snd ?r)"
    by (simp add: prod_eq_iff)
  from default_prevention_at_construction [OF this]
  show ?thesis using ok
    by (simp add: default_prevention_state_def legacy_native_def)
qed

text \<open>
  Claim C10. With \<^verbatim>\<open>nativeEvent\<close> equal to \<^verbatim>\<open>null\<close> or \<^verbatim>\<open>undefined\<close> the
  constructor throws, whatever the descriptor table (the read of
  \<^verbatim>\<open>nativeEvent.defaultPrevented\<close> after the loop is not guarded), and so do a
  class called on an instance and \<^verbatim>\<open>getPooled\<close>. With \<^verbatim>\<open>nativeEvent\<close> an object
  the constructor returns, whatever fields the object has, for every table that has no
  entry named \<^verbatim>\<open>hasOwnProperty\<close> and whose normalizers return on the object.
\<close>

theorem construction_needs_native_object:
  "(ne = NNull \<or> ne = NUndefined \<longrightarrow>
      (\<exists>e. fst (SyntheticEvent I h now this dc ti ne nt) = Some e) \<and>
      (\<exists>e. fst (construct w h now this dc ti ne nt) = Some e) \<and>
      (\<exists>e. fst (getPooledEvent w h now C dc ti ne nt) = Inl e)) \<and>
   ((\<forall>(name, rule) \<in> set I. \<forall>f. rule = Some f \<longrightarrow>
        (\<exists>v. f h now (ArgEvent (NObj a)) = Inr v)) \<and>
    ''hasOwnProperty'' \<notin> fst ` set I \<longrightarrow>
      fst (SyntheticEvent I h now this dc ti (NObj a) nt) = None)"
proof (intro conjI impI)
  assume ne: "ne = NNull \<or> ne = NUndefined"
  then show 1: "\<exists>e. fst (SyntheticEvent I h now this dc ti ne nt) = Some e" for I this
    by (auto simp: SyntheticEvent_def Let_def split: prod.splits option.splits)
  then show 2: "\<exists>e. fst (construct w h now this dc ti ne nt) = Some e" for w this
    by (simp add: construct_def)
  show "\<exists>e. fst (getPooledEvent w h now C dc ti ne nt) = Inl e"
    using 2 [of w "new_object C"]
      2 [of "w\<lparr>classes := (classes w)[C := (classes w ! C)\<lparr>eventPool := butlast (eventPool (classes w ! C))\<rparr>]\<rparr>"
           "instances w ! last (eventPool (classes w ! C))"]
    by (auto simp: getPooledEvent_def Let_def split: prod.splits option.splits)
next
  assume "(\<forall>(name, rule) \<in> set I. \<forall>f. rule = Some f \<longrightarrow>
        (\<exists>v. f h now (ArgEvent (NObj a)) = Inr v)) \<and>
    ''hasOwnProperty'' \<notin> fst ` set I"
  then have "fst (populate h now (NObj a) nt I I (event_fields this)) = None"
    by (simp add: populate_object)
  then show "fst (SyntheticEvent I h now this dc ti (NObj a) nt) = None"
    by (cases "populate h now (NObj a) nt I I (event_fields this)")
       (auto simp: SyntheticEvent_def Let_def split: option.splits)
qed

text \<open>
  On the base class: \<^verbatim>\<open>null\<close> fails in the constructor and in \<^verbatim>\<open>getPooled\<close>; an
  object with no field at all constructs; and with the table
  \<^verbatim>\<open>{hasOwnProperty: null}\<close> the constructor throws on that object.
\<close>

theorem construction_needs_native_object_witness:
  "(\<exists>e. fst (SyntheticEvent EventInterface empty_heap 0 (new_object 0) Null Null NNull Null) = Some e) \<and>
   (\<exists>e. fst (getPooledEvent initial_world empty_heap 0 0 Null Null NNull Null) = Inl e) \<and>
   fst (SyntheticEvent EventInterface empty_heap 0 (new_object 0) Null Null (NObj 0) Null) = None \<and>
   fst (SyntheticEvent [(''hasOwnProperty'', None)] empty_heap 0 (new_object 0) Null Null
          (NObj 0) Null) = Some TypeError"
  using construction_needs_native_object
    [of NNull EventInterface empty_heap 0 "new_object 0" Null Null Null initial_world 0 0]
  by (simp add: EventInterface_def empty_heap_def)
     (simp add: SyntheticEvent_def hasOwnProperty_def)
subsection \<open>The mutators\<close>

lemma released_event_slots:
  "nativeEvent released_event = NNull"
  "isDefaultPrevented released_event = functionThatReturnsFalse"
  "isPropagationStopped released_event = functionThatReturnsFalse"
  by (simp_all add: released_event_def getPooledEvent_def releasePooledEvent_def initial_world_def
        addEventPoolingTo_def construct_def instanceof_def EVENT_POOL_SIZE_def new_object_def
        SyntheticEvent_def EventInterface_def field_value_def empty_heap_def destructor_def Let_def
        hasOwnProperty_def)

lemma attached_event_native:
  "nativeEvent attached_event = NObj 0"
  "isDefaultPrevented attached_event = functionThatReturnsFalse"
  "isPropagationStopped attached_event = functionThatReturnsFalse"
  by (simp_all add: attached_event_def SyntheticEvent_def EventInterface_def field_value_def
        empty_heap_def hasOwnProperty_def)

lemma call_method_returns:
  "host_call_returns h a name \<Longrightarrow>
     call_method h (NObj a) name = (None, h(a := (h a)\<lparr>calls := calls (h a) @ [name]\<rparr>))"
  by (simp add: host_call_returns_def split: option.splits jsval.splits)

lemma call_method_throws:
  "\<not> host_call_returns h a name \<Longrightarrow> fst (call_method h (NObj a) name) \<noteq> None"
  by (simp add: host_call_returns_def split: option.splits jsval.splits)

lemma host_call_returns_cong:
  "props (h' a) = props (h a) \<Longrightarrow> raises (h' a) = raises (h a)
    \<Longrightarrow> host_call_returns h' a name = host_call_returns h a name"
  by (simp add: host_call_returns_def split: option.splits jsval.splits)

lemma cooperates_after:
  assumes "native_cooperates h a method field" and "method \<noteq> field"
    and "typeof v \<noteq> ''unknown''"
  shows "native_cooperates (after_mutator h a method field v) a method field"
proof (cases "truthy (native_prop h a method)")
  case True
  let ?h = "h(a := (h a)\<lparr>calls := calls (h a) @ [method]\<rparr>)"
  have "native_prop ?h a method = native_prop h a method"
    by (simp add: native_prop_def)
  moreover have "host_call_returns ?h a method = host_call_returns h a method"
    by (rule host_call_returns_cong) simp_all
  ultimately show ?thesis
    using assms(1) True by (simp add: native_cooperates_def after_mutator_def)
next
  case False
  with assms show ?thesis
    by (auto simp: native_cooperates_def after_mutator_def native_prop_def)
qed

lemma preventDefault_cooperating:
  assumes "nativeEvent this = NObj a"
    and "native_cooperates h a ''preventDefault'' ''returnValue''"
  shows "preventDefault this h =
    (None,
     this\<lparr>event_fields := (event_fields this)(''defaultPrevented'' \<mapsto> Bool True),
          isDefaultPrevented := functionThatReturnsTrue\<rparr>,
     after_mutator h a ''preventDefault'' ''returnValue'' (Bool False))"
proof (cases "truthy (native_prop h a ''preventDefault'')")
  case True
  with assms(2) have "host_call_returns h a ''preventDefault''"
    by (simp add: native_cooperates_def)
  from call_method_returns [OF this] True assms(1) show ?thesis
    by (simp add: preventDefault_def after_mutator_def native_prop_def)
next
  case False
  with assms show ?thesis
    by (auto simp: preventDefault_def after_mutator_def native_prop_def native_cooperates_def)
qed

lemma preventDefault_refused:
  assumes "nativeEvent this = NObj a"
    and "\<not> native_cooperates h a ''preventDefault'' ''returnValue''"
  shows "fst (preventDefault this h) \<noteq> None \<and>
    fst (snd (preventDefault this h)) =
      this\<lparr>event_fields := (event_fields this)(''defaultPrevented'' \<mapsto> Bool True)\<rparr>"
proof (cases "truthy (native_prop h a ''preventDefault'')")
  case True
  with assms(2) have "\<not> host_call_returns h a ''preventDefault''"
    by (simp add: native_cooperates_def)
  from call_method_throws [OF this] True assms(1) show ?thesis
    by (cases "call_method h (NObj a) ''preventDefault''")
       (auto simp: preventDefault_def native_prop_def)
next
  case False
  with assms show ?thesis
    by (simp add: preventDefault_def native_prop_def native_cooperates_def)
qed

lemma stopPropagation_cooperating:
  assumes "nativeEvent this = NObj a"
    and "native_cooperates h a ''stopPropagation'' ''cancelBubble''"
  shows "stopPropagation this h =
    (None, this\<lparr>isPropagationStopped := functionThatReturnsTrue\<rparr>,
     after_mutator h a ''stopPropagation'' ''cancelBubble'' (Bool True))"
proof (cases "truthy (native_prop h a ''stopPropagation'')")
  case True
  with assms(2) have "host_call_returns h a ''stopPropagation''"
    by (simp add: native_cooperates_def)
  from call_method_returns [OF this] True assms(1) show ?thesis
    by (simp add: stopPropagation_def after_mutator_def native_prop_def)
next
  case False
  with assms show ?thesis
    by (auto simp: stopPropagation_def after_mutator_def native_prop_def native_cooperates_def)
qed

lemma stopPropagation_refused:
  assumes "nativeEvent this = NObj a"
    and "\<not> native_cooperates h a ''stopPropagation'' ''cancelBubble''"
  shows "fst (stopPropagation this h) \<noteq> None \<and> fst (snd (stopPropagation this h)) = this"
proof (cases "truthy (native_prop h a ''stopPropagation'')")
  case True
  with assms(2) have "\<not> host_call_returns h a ''stopPropagation''"
    by (simp add: native_cooperates_def)
  from call_method_throws [OF this] True assms(1) show ?thesis
    by (cases "call_method h (NObj a) ''stopPropagation''")
       (auto simp: stopPropagation_def native_prop_def)
next
  case False
  with assms show ?thesis
    by (simp add: stopPropagation_def native_prop_def native_cooperates_def)
qed

text \<open>
  Claim C3 fails as stated. On an instance whose native event is absent (here an
  instance that was released, so that \<^verbatim>\<open>nativeEvent\<close> is \<^verbatim>\<open>null\<close>),
  \<^verbatim>\<open>preventDefault()\<close> sets the \<^verbatim>\<open>defaultPrevented\<close> flag and returns at the guard
  \<^verbatim>\<open>if (!event) return\<close>, before \<^verbatim>\<open>isDefaultPrevented\<close> is assigned:
  \<^verbatim>\<open>isDefaultPrevented()\<close> is false after one call and after two.
\<close>

theorem preventDefault_without_native_counterexample:
  "nativeEvent released_event = NNull \<and>
   fst (preventDefault released_event empty_heap) = None \<and>
   event_fields (fst (snd (preventDefault released_event empty_heap))) ''defaultPrevented''
     = Some (Bool True) \<and>
   \<not> invoke (isDefaultPrevented (fst (snd (preventDefault released_event empty_heap)))) \<and>
   \<not> invoke (isDefaultPrevented
        (fst (snd (preventDefault (fst (snd (preventDefault released_event empty_heap)))
                     empty_heap))))"
  by (simp add: released_event_slots preventDefault_def)

text \<open>
  Claim C3, amended. \<^verbatim>\<open>preventDefault()\<close> sets the \<^verbatim>\<open>defaultPrevented\<close> flag to
  true. When no native event is attached it returns, and changes nothing else:
  \<^verbatim>\<open>isDefaultPrevented\<close> stays as it was, also after a second call. When a native
  event is attached and the host cooperates (its \<^verbatim>\<open>preventDefault\<close>, if truthy, is a
  function that returns; if not truthy, \<^verbatim>\<open>returnValue\<close> can be written or has
  \<^verbatim>\<open>typeof\<close> \<^verbatim>\<open>'unknown'\<close>), the call returns, \<^verbatim>\<open>isDefaultPrevented\<close> becomes
  \<^verbatim>\<open>functionThatReturnsTrue\<close>, a second call returns and leaves the instance as the
  first call left it, and the native \<^verbatim>\<open>preventDefault\<close> method is called if there is
  one; if not, \<^verbatim>\<open>returnValue\<close> is set to \<^verbatim>\<open>false\<close>, unless its \<^verbatim>\<open>typeof\<close> is
  \<^verbatim>\<open>'unknown'\<close>, when the native event is left alone. When the host does not
  cooperate, the call throws and \<^verbatim>\<open>isDefaultPrevented\<close> stays as it was.
\<close>

theorem preventDefault_effect:
  assumes "preventDefault this h = (err, this', h')"
  shows "event_fields this' ''defaultPrevented'' = Some (Bool True) \<and>
    (case nativeEvent this of
       NObj a \<Rightarrow>
         if native_cooperates h a ''preventDefault'' ''returnValue'' then
           err = None \<and>
           this' = this\<lparr>event_fields := (event_fields this)(''defaultPrevented'' \<mapsto> Bool True),
                        isDefaultPrevented := functionThatReturnsTrue\<rparr> \<and>
           invoke (isDefaultPrevented this') \<and>
           h' = after_mutator h a ''preventDefault'' ''returnValue'' (Bool False) \<and>
           fst (preventDefault this' h') = None \<and>
           fst (snd (preventDefault this' h')) = this'
         else
           err \<noteq> None \<and>
           this' = this\<lparr>event_fields := (event_fields this)(''defaultPrevented'' \<mapsto> Bool True)\<rparr>
     | _ \<Rightarrow>
         err = None \<and>
         this' = this\<lparr>event_fields := (event_fields this)(''defaultPrevented'' \<mapsto> Bool True)\<rparr> \<and>
         h' = h \<and>
         fst (preventDefault this' h') = None \<and>
         fst (snd (preventDefault this' h')) = this')"
proof (cases "nativeEvent this")
  case (NObj a)
  show ?thesis
  proof (cases "native_cooperates h a ''preventDefault'' ''returnValue''")
    case True
    from preventDefault_cooperating [OF NObj True] assms
    have 1: "err = None"
      "this' = this\<lparr>event_fields := (event_fields this)(''defaultPrevented'' \<mapsto> Bool True),
                        isDefaultPrevented := functionThatReturnsTrue\<rparr>"
      "h' = after_mutator h a ''preventDefault'' ''returnValue'' (Bool False)"
      by simp_all
    from 1(2) NObj have n: "nativeEvent this' = NObj a" by simp
    from cooperates_after [OF True, of "Bool False"] 1(3)
    have c: "native_cooperates h' a ''preventDefault'' ''returnValue''" by simp
    from preventDefault_cooperating [OF n c] 1(2)
    have "fst (preventDefault this' h') = None" "fst (snd (preventDefault this' h')) = this'"
      by simp_all
    with 1 NObj True show ?thesis by simp
  next
    case False
    from preventDefault_refused [OF NObj False] assms NObj False show ?thesis
      by simp
  qed
qed (use assms in \<open>auto simp: preventDefault_def Let_def\<close>)

text \<open>
  On an instance with an empty native event attached the call returns,
  \<^verbatim>\<open>isDefaultPrevented()\<close> is true and the native \<^verbatim>\<open>returnValue\<close> is \<^verbatim>\<open>false\<close>; on
  the released instance the flag is set and the heap is untouched; with a native event
  whose \<^verbatim>\<open>preventDefault\<close> is \<^verbatim>\<open>true\<close> the call throws a TypeError and
  \<^verbatim>\<open>isDefaultPrevented()\<close> stays false.
\<close>

theorem preventDefault_effect_witness:
  "fst (preventDefault attached_event empty_heap) = None \<and>
   invoke (isDefaultPrevented (fst (snd (preventDefault attached_event empty_heap)))) \<and>
   props (snd (snd (preventDefault attached_event empty_heap)) 0) ''returnValue''
     = Some (Bool False) \<and>
   event_fields (fst (snd (preventDefault released_event empty_heap))) ''defaultPrevented''
     = Some (Bool True) \<and>
   snd (snd (preventDefault released_event empty_heap)) = empty_heap \<and>
   fst (preventDefault attached_event stubborn_heap) = Some TypeError \<and>
   \<not> invoke (isDefaultPrevented (fst (snd (preventDefault attached_event stubborn_heap))))"
  using preventDefault_effect [of attached_event empty_heap
          "fst (preventDefault attached_event empty_heap)"
          "fst (snd (preventDefault attached_event empty_heap))"
          "snd (snd (preventDefault attached_event empty_heap))"]
        preventDefault_effect [of released_event empty_heap
          "fst (preventDefault released_event empty_heap)"
          "fst (snd (preventDefault released_event empty_heap))"
          "snd (snd (preventDefault released_event empty_heap))"]
        preventDefault_effect [of attached_event stubborn_heap
          "fst (preventDefault attached_event stubborn_heap)"
          "fst (snd (preventDefault attached_event stubborn_heap))"
          "snd (snd (preventDefault attached_event stubborn_heap))"]
  by (simp add: attached_event_native released_event_slots native_prop_def empty_heap_def
        native_cooperates_def host_call_returns_def stubborn_heap_def after_mutator_def)
     (simp add: preventDefault_def attached_event_native stubborn_heap_def)

text \<open>
  Claim C4 fails as stated. On an instance whose native event is absent,
  \<^verbatim>\<open>stopPropagation()\<close> returns at its first statement, the guard
  \<^verbatim>\<open>if (!event) return\<close>: \<^verbatim>\<open>isPropagationStopped()\<close> is still false afterwards.
\<close>

theorem stopPropagation_without_native_counterexample:
  "nativeEvent released_event = NNull \<and>
   fst (stopPropagation released_event empty_heap) = None \<and>
   \<not> invoke (isPropagationStopped (fst (snd (stopPropagation released_event empty_heap))))"
  by (simp add: released_event_slots stopPropagation_def)

text \<open>
  Claim C4, amended. When no native event is attached, \<^verbatim>\<open>stopPropagation()\<close>
  returns and changes nothing at all, also when called twice. When a native event is
  attached and the host cooperates (its \<^verbatim>\<open>stopPropagation\<close>, if truthy, is a function
  that returns; if not truthy, \<^verbatim>\<open>cancelBubble\<close> can be written or has \<^verbatim>\<open>typeof\<close>
  \<^verbatim>\<open>'unknown'\<close>), the call returns, \<^verbatim>\<open>isPropagationStopped\<close> becomes
  \<^verbatim>\<open>functionThatReturnsTrue\<close> (nothing else of the instance changes), a second call
  returns and leaves the instance as the first call left it, and the native
  \<^verbatim>\<open>stopPropagation\<close> method is called if there is one; if not, \<^verbatim>\<open>cancelBubble\<close> is
  set to \<^verbatim>\<open>true\<close>, unless its \<^verbatim>\<open>typeof\<close> is \<^verbatim>\<open>'unknown'\<close>, when the native event
  is left alone. When the host does not cooperate, the call throws and the instance
  stays as it was.
\<close>

theorem stopPropagation_effect:
  assumes "stopPropagation this h = (err, this', h')"
  shows "(case nativeEvent this of
       NObj a \<Rightarrow>
         if native_cooperates h a ''stopPropagation'' ''cancelBubble'' then
           err = None \<and>
           this' = this\<lparr>isPropagationStopped := functionThatReturnsTrue\<rparr> \<and>
           invoke (isPropagationStopped this') \<and>
           h' = after_mutator h a ''stopPropagation'' ''cancelBubble'' (Bool True) \<and>
           fst (stopPropagation this' h') = None \<and>
           fst (snd (stopPropagation this' h')) = this'
         else err \<noteq> None \<and> this' = this
     | _ \<Rightarrow>
         err = None \<and> this' = this \<and> h' = h \<and>
         fst (stopPropagation this' h') = None \<and>
         fst (snd (stopPropagation this' h')) = this')"
proof (cases "nativeEvent this")
  case (NObj a)
  show ?thesis
  proof (cases "native_cooperates h a ''stopPropagation'' ''cancelBubble''")
    case True
    from stopPropagation_cooperating [OF NObj True] assms
    have 1: "err = None"
      "this' = this\<lparr>isPropagationStopped := functionThatReturnsTrue\<rparr>"
      "h' = after_mutator h a ''stopPropagation'' ''cancelBubble'' (Bool True)"
      by simp_all
    from 1(2) NObj have n: "nativeEvent this' = NObj a" by simp
    from cooperates_after [OF True, of "Bool True"] 1(3)
    have c: "native_cooperates h' a ''stopPropagation'' ''cancelBubble''" by simp
    from stopPropagation_cooperating [OF n c] 1(2)
    have "fst (stopPropagation this' h') = None" "fst (snd (stopPropagation this' h')) = this'"
      by simp_all
    with 1 NObj True show ?thesis by simp
  next
    case False
    from stopPropagation_refused [OF NObj False] assms NObj False show ?thesis
      by simp
  qed
qed (use assms in \<open>auto simp: stopPropagation_def Let_def\<close>)

text \<open>
  On an instance with an empty native event attached the call returns,
  \<^verbatim>\<open>isPropagationStopped()\<close> is true and the native \<^verbatim>\<open>cancelBubble\<close> is \<^verbatim>\<open>true\<close>; on
  the released instance nothing changes; with a frozen native event that has no
  \<^verbatim>\<open>stopPropagation\<close> the call throws a TypeError and \<^verbatim>\<open>isPropagationStopped()\<close>
  stays false.
\<close>

theorem stopPropagation_effect_witness:
  "fst (stopPropagation attached_event empty_heap) = None \<and>
   invoke (isPropagationStopped (fst (snd (stopPropagation attached_event empty_heap)))) \<and>
   props (snd (snd (stopPropagation attached_event empty_heap)) 0) ''cancelBubble''
     = Some (Bool True) \<and>
   fst (snd (stopPropagation released_event empty_heap)) = released_event \<and>
   snd (snd (stopPropagation released_event empty_heap)) = empty_heap \<and>
   fst (stopPropagation attached_event stubborn_heap) = Some TypeError \<and>
   \<not> invoke (isPropagationStopped (fst (snd (stopPropagation attached_event stubborn_heap))))"
  using stopPropagation_effect [of attached_event empty_heap
          "fst (stopPropagation attached_event empty_heap)"
          "fst (snd (stopPropagation attached_event empty_heap))"
          "snd (snd (stopPropagation attached_event empty_heap))"]
        stopPropagation_effect [of released_event empty_heap
          "fst (stopPropagation released_event empty_heap)"
          "fst (snd (stopPropagation released_event empty_heap))"
          "snd (snd (stopPropagation released_event empty_heap))"]
        stopPropagation_effect [of attached_event stubborn_heap
          "fst (stopPropagation attached_event stubborn_heap)"
          "fst (snd (stopPropagation attached_event stubborn_heap))"
          "snd (snd (stopPropagation attached_event stubborn_heap))"]
  by (simp add: attached_event_native released_event_slots native_prop_def empty_heap_def
        native_cooperates_def host_call_returns_def stubborn_heap_def after_mutator_def)
     (simp add: stopPropagation_def attached_event_native stubborn_heap_def)
subsection \<open>Release\<close>

lemma destructor_fields:
  "fold (\<lambda>(propName, rule) fs. fs(propName \<mapsto> Null)) I fs name =
     (if name \<in> fst ` set I then Some Null else fs name)"
  by (induction I arbitrary: fs) (auto split: prod.splits)

text \<open>
  Claim C5 fails as stated in one point: \<^verbatim>\<open>destructor\<close> does not assign
  \<^verbatim>\<open>isPersistent\<close>. An instance on which \<^verbatim>\<open>persist()\<close> was called and which is then
  released still answers true to \<^verbatim>\<open>isPersistent()\<close>.
\<close>

theorem release_keeps_persistence_counterexample:
  "instanceof persisted_world (EventInstance 0) 0 \<and>
   fst (releasePooledEvent persisted_world 0 (EventInstance 0)) = None \<and>
   isPersistent (instances (snd (releasePooledEvent persisted_world 0 (EventInstance 0))) ! 0)
     = functionThatReturnsTrue \<and>
   invoke (isPersistent
     (instances (snd (releasePooledEvent persisted_world 0 (EventInstance 0))) ! 0))"
  by (simp add: persisted_world_def getPooledEvent_def releasePooledEvent_def initial_world_def
        addEventPoolingTo_def construct_def instanceof_def EVENT_POOL_SIZE_def new_object_def
        SyntheticEvent_def EventInterface_def field_value_def empty_heap_def destructor_def
        persist_def Let_def hasOwnProperty_def)

text \<open>
  Claim C5, amended. For every class \<open>C\<close> of the world and every value:
  \<^verbatim>\<open>release\<close> throws the invariant error, and changes nothing, when the value is not
  an instance of \<open>C\<close> (\<^verbatim>\<open>instanceof\<close>: the prototype of \<open>C\<close> is not on its prototype
  chain). When it is an instance, of a class whose descriptor table names no slot or
  method of an instance (\<open>plain_table\<close>), \<^verbatim>\<open>release\<close> returns, and afterwards every
  field named by that table is \<^verbatim>\<open>null\<close>, as are \<^verbatim>\<open>dispatchConfig\<close>,
  \<^verbatim>\<open>_targetInst\<close>, \<^verbatim>\<open>nativeEvent\<close>, \<^verbatim>\<open>_dispatchListeners\<close> and
  \<^verbatim>\<open>_dispatchInstances\<close>; \<^verbatim>\<open>isDefaultPrevented\<close> and \<^verbatim>\<open>isPropagationStopped\<close> are
  \<^verbatim>\<open>functionThatReturnsFalse\<close>; \<^verbatim>\<open>isPersistent\<close> is what it was before.
\<close>

theorem release_effect:
  "(\<not> instanceof w event C \<longrightarrow>
      releasePooledEvent w C event =
        (Some (Invariant ''Trying to release an event instance into a pool of a different type.''), w)) \<and>
   (\<forall>a. event = EventInstance a \<and> instanceof w event C \<and> C < length (classes w) \<and>
        plain_table (Interface (classes w ! constructor_id (instances w ! a))) \<longrightarrow>
        a < length (instances w) \<and>
        fst (releasePooledEvent w C event) = None \<and>
        (\<forall>name \<in> fst ` set (Interface (classes w ! constructor_id (instances w ! a))).
           event_fields (instances (snd (releasePooledEvent w C event)) ! a) name = Some Null) \<and>
        dispatchConfig (instances (snd (releasePooledEvent w C event)) ! a) = Null \<and>
        targetInst (instances (snd (releasePooledEvent w C event)) ! a) = Null \<and>
        nativeEvent (instances (snd (releasePooledEvent w C event)) ! a) = NNull \<and>
        isDefaultPrevented (instances (snd (releasePooledEvent w C event)) ! a)
          = functionThatReturnsFalse \<and>
        isPropagationStopped (instances (snd (releasePooledEvent w C event)) ! a)
          = functionThatReturnsFalse \<and>
        dispatchListeners (instances (snd (releasePooledEvent w C event)) ! a) = Null \<and>
        dispatchInstances (instances (snd (releasePooledEvent w C event)) ! a) = Null \<and>
        isPersistent (instances (snd (releasePooledEvent w C event)) ! a)
          = isPersistent (instances w ! a))"
proof (intro conjI)
  show "\<not> instanceof w event C \<longrightarrow>
      releasePooledEvent w C event =
        (Some (Invariant ''Trying to release an event instance into a pool of a different type.''), w)"
    by (simp add: releasePooledEvent_def)
  show "\<forall>a. event = EventInstance a \<and> instanceof w event C \<and> C < length (classes w) \<and>
        plain_table (Interface (classes w ! constructor_id (instances w ! a))) \<longrightarrow>
        a < length (instances w) \<and>
        fst (releasePooledEvent w C event) = None \<and>
        (\<forall>name \<in> fst ` set (Interface (classes w ! constructor_id (instances w ! a))).
           event_fields (instances (snd (releasePooledEvent w C event)) ! a) name = Some Null) \<and>
        dispatchConfig (instances (snd (releasePooledEvent w C event)) ! a) = Null \<and>
        targetInst (instances (snd (releasePooledEvent w C event)) ! a) = Null \<and>
        nativeEvent (instances (snd (releasePooledEvent w C event)) ! a) = NNull \<and>
        isDefaultPrevented (instances (snd (releasePooledEvent w C event)) ! a)
          = functionThatReturnsFalse \<and>
        isPropagationStopped (instances (snd (releasePooledEvent w C event)) ! a)
          = functionThatReturnsFalse \<and>
        dispatchListeners (instances (snd (releasePooledEvent w C event)) ! a) = Null \<and>
        dispatchInstances (instances (snd (releasePooledEvent w C event)) ! a) = Null \<and>
        isPersistent (instances (snd (releasePooledEvent w C event)) ! a)
          = isPersistent (instances w ! a)"
  proof (intro allI impI)
    fix a
    assume h: "event = EventInstance a \<and> instanceof w event C \<and> C < length (classes w) \<and>
        plain_table (Interface (classes w ! constructor_id (instances w ! a)))"
    then have a: "a < length (instances w)"
      by (auto simp: instanceof_def)
    with h show "a < length (instances w) \<and>
        fst (releasePooledEvent w C event) = None \<and>
        (\<forall>name \<in> fst ` set (Interface (classes w ! constructor_id (instances w ! a))).
           event_fields (instances (snd (releasePooledEvent w C event)) ! a) name = Some Null) \<and>
        dispatchConfig (instances (snd (releasePooledEvent w C event)) ! a) = Null \<and>
        targetInst (instances (snd (releasePooledEvent w C event)) ! a) = Null \<and>
        nativeEvent (instances (snd (releasePooledEvent w C event)) ! a) = NNull \<and>
        isDefaultPrevented (instances (snd (releasePooledEvent w C event)) ! a)
          = functionThatReturnsFalse \<and>
        isPropagationStopped (instances (snd (releasePooledEvent w C event)) ! a)
          = functionThatReturnsFalse \<and>
        dispatchListeners (instances (snd (releasePooledEvent w C event)) ! a) = Null \<and>
        dispatchInstances (instances (snd (releasePooledEvent w C event)) ! a) = Null \<and>
        isPersistent (instances (snd (releasePooledEvent w C event)) ! a)
          = isPersistent (instances w ! a)"
      by (auto simp: releasePooledEvent_def Let_def destructor_def destructor_fields)
  qed
qed

lemma sibling_world_facts:
  "instanceof sibling_world (EventInstance 0) (Suc 0)"
  "\<not> instanceof sibling_world (EventInstance 0) 2"
  "\<not> instanceof sibling_world (Other (Num 3)) (Suc 0)"
  "length (classes sibling_world) = 3"
  "plain_table (Interface (classes sibling_world ! constructor_id (instances sibling_world ! 0)))"
  by code_simp+

text \<open>
  The instance of class 1 cannot be released into the pool of its sibling class 2, and
  a number cannot be released at all; released into the pool of class 1, the instance
  loses its native event.
\<close>

theorem release_effect_witness:
  "fst (releasePooledEvent sibling_world 2 (EventInstance 0)) =
     Some (Invariant ''Trying to release an event instance into a pool of a different type.'') \<and>
   fst (releasePooledEvent sibling_world 1 (Other (Num 3))) =
     Some (Invariant ''Trying to release an event instance into a pool of a different type.'') \<and>
   fst (releasePooledEvent sibling_world 1 (EventInstance 0)) = None \<and>
   nativeEvent (instances (snd (releasePooledEvent sibling_world 1 (EventInstance 0))) ! 0) = NNull"
  using release_effect [of sibling_world "EventInstance 0" 2]
        release_effect [of sibling_world "Other (Num 3)" 1]
        release_effect [of sibling_world "EventInstance 0" 1]
  by (simp add: sibling_world_facts)

subsection \<open>The capacity of the pools\<close>

lemma list_all_update:
  "list_all P xs \<Longrightarrow> P x \<Longrightarrow> list_all P (xs[i := x])"
  using set_update_subset_insert [of xs i x] by (auto simp: list_all_iff)

lemma list_all_nth: "list_all P xs \<Longrightarrow> i < length xs \<Longrightarrow> P (xs ! i)"
  by (simp add: list_all_iff)

lemma getPooledEvent_bounded:
  assumes "pools_bounded w"
  shows "pools_bounded (snd (getPooledEvent w h now C dc ti ne ni))"
proof -
  have "list_all (\<lambda>C. length (eventPool C) \<le> EVENT_POOL_SIZE)
          ((classes w)[C := (classes w ! C)\<lparr>eventPool := butlast (eventPool (classes w ! C))\<rparr>])"
    if "C < length (classes w)"
    using assms that list_all_nth [of "\<lambda>C. length (eventPool C) \<le> EVENT_POOL_SIZE" "classes w" C]
    by (intro list_all_update) (auto simp: pools_bounded_def)
  with assms show ?thesis
    by (auto simp: getPooledEvent_def pools_bounded_def Let_def split: prod.splits option.splits)
qed

lemma releasePooledEvent_bounded:
  assumes "pools_bounded w"
  shows "pools_bounded (snd (releasePooledEvent w C event))"
  using assms
  by (auto simp: releasePooledEvent_def pools_bounded_def Let_def intro!: list_all_update
           split: js_ref.splits)

lemma extend_bounded:
  assumes "pools_bounded w"
  shows "pools_bounded (snd (extend w Super I))"
  using assms
  by (auto simp: extend_def pools_bounded_def Let_def addEventPoolingTo_def)

lemma step_bounded: "pools_bounded w \<Longrightarrow> pools_bounded (step w op)"
  by (cases op) (simp_all add: getPooledEvent_bounded releasePooledEvent_bounded extend_bounded)

lemma run_bounded: "pools_bounded w \<Longrightarrow> pools_bounded (run w ops)"
  unfolding run_def by (induction ops arbitrary: w) (simp_all add: step_bounded)

lemma initial_bounded: "pools_bounded initial_world"
  by (simp add: pools_bounded_def initial_world_def addEventPoolingTo_def)

text \<open>
  Claim C6. After every sequence of \<^verbatim>\<open>getPooled\<close>, \<^verbatim>\<open>release\<close> and \<^verbatim>\<open>extend\<close>
  calls (whether they return or throw), started from the world of the module or from
  any world whose pools hold at most 10 instances, the pool of every class holds at
  most 10 instances. A \<^verbatim>\<open>release\<close> that passes the \<^verbatim>\<open>instanceof\<close> check returns, and
  it appends the instance to the pool when the pool holds fewer than 10 instances and
  leaves the pool as it is otherwise.
\<close>

theorem pool_never_exceeds_capacity:
  "pools_bounded (run initial_world ops) \<and>
   (pools_bounded w \<longrightarrow> pools_bounded (run w ops)) \<and>
   (C < length (classes (run initial_world ops)) \<longrightarrow>
      length (pool_of (run initial_world ops) C) \<le> 10) \<and>
   (C < length (classes w) \<and> instanceof w (EventInstance a) C \<longrightarrow>
      fst (releasePooledEvent w C (EventInstance a)) = None \<and>
      pool_of (snd (releasePooledEvent w C (EventInstance a))) C =
        (if length (pool_of w C) < 10 then pool_of w C @ [a] else pool_of w C))"
proof (intro conjI impI)
  show b: "pools_bounded (run initial_world ops)"
    by (rule run_bounded [OF initial_bounded])
  show "pools_bounded (run w ops)" if "pools_bounded w"
    by (rule run_bounded [OF that])
  show "length (pool_of (run initial_world ops) C) \<le> 10"
    if "C < length (classes (run initial_world ops))"
    using b that by (simp add: pools_bounded_def pool_of_def list_all_iff EVENT_POOL_SIZE_def)
  assume h: "C < length (classes w) \<and> instanceof w (EventInstance a) C"
  then show "fst (releasePooledEvent w C (EventInstance a)) = None"
    by (simp add: releasePooledEvent_def Let_def)
  from h show "pool_of (snd (releasePooledEvent w C (EventInstance a))) C =
        (if length (pool_of w C) < 10 then pool_of w C @ [a] else pool_of w C)"
    by (simp add: releasePooledEvent_def Let_def pool_of_def EVENT_POOL_SIZE_def)
qed

lemma ten_released_facts:
  "pool_of ten_released 0 = [0, 1, 2, 3, 4, 5, 6, 7, 8, 9]"
  "instanceof ten_released (EventInstance 10) 0"
  "length (classes ten_released) = 1"
  by code_simp+

text \<open>
  Eleven instances acquired, ten released: the pool holds the ten. Releasing the
  eleventh returns and leaves the pool as it is.
\<close>

theorem pool_never_exceeds_capacity_witness:
  "pools_bounded ten_released \<and>
   length (pool_of ten_released 0) = 10 \<and>
   fst (releasePooledEvent ten_released 0 (EventInstance 10)) = None \<and>
   pool_of (snd (releasePooledEvent ten_released 0 (EventInstance 10))) 0 = pool_of ten_released 0"
  using pool_never_exceeds_capacity [of fill_ops ten_released 0 10]
  by (simp add: ten_released_facts) (simp add: ten_released_def)

subsection \<open>Extension\<close>











subsection \<open>Reuse of a pooled instance\<close>





















subsection \<open>The batching coordinator\<close>








lemma batchedUpdates_idle:
  assumes "\<not> isBatching s"
    and "batchedUpdatesImpl w fn bookkeeping
           (s\<lparr>isBatching := True, trace := trace s @ [SetIsBatching True]\<rparr>) = (r, s2)"
  shows "fst (batchedUpdates w fn bookkeeping s) =
           (case check_throws w (host s2) of None \<Rightarrow> r | Some e \<Rightarrow> Thrown e) \<and>
         \<not> isBatching (snd (batchedUpdates w fn bookkeeping s)) \<and>
         trace (snd (batchedUpdates w fn bookkeeping s)) =
           trace s2 @ SetIsBatching False # check_calls w (host s2)"
  using assms
  by (simp add: batchedUpdates_def check_throws_def check_calls_def Let_def
        split: sum.splits prod.splits outcome.splits)



text \<open>
  Claim C9 fails as stated. \<^verbatim>\<open>batchedUpdates\<close> returns, from idle, what the injected
  \<^verbatim>\<open>batchedUpdatesImpl\<close> returns. With an implementation that returns 42 and a
  function that returns its argument, the call with 7 returns 42.
\<close>

theorem batchedUpdates_result_counterexample:
  "fst (batchedUpdates constant_wiring echo 7 idle) = Returned 42 \<and>
   fst (echo 7 idle) = Returned 7 \<and>
   fst (echo 7 (idle\<lparr>isBatching := True, trace := [SetIsBatching True]\<rparr>)) = Returned 7 \<and>
   fst (batchedUpdates constant_wiring echo 7 idle) \<noteq> fst (echo 7 idle)"
  by (simp add: constant_wiring_def setBatchingImplementation_def sample_wiring_def
        default_wiring_def echo_def idle_def batchedUpdates_def)

text \<open>
  Claim C9, amended. A call made while batching is the call \<^verbatim>\<open>fn(bookkeeping)\<close>, with
  its result and its effects. A call made while idle has the outcome of
  \<^verbatim>\<open>batchedUpdatesImpl(fn, bookkeeping)\<close>, run with the flag set, unless the
  restoration check in the \<^verbatim>\<open>finally\<close> block throws, when it throws that exception.
  So it has the outcome of \<^verbatim>\<open>fn(bookkeeping)\<close> when the check does not throw and the
  injected implementation passes the outcome of the function through, as the default
  one does, which is the call \<^verbatim>\<open>fn(bookkeeping)\<close>.
\<close>

theorem batchedUpdates_result:
  "(isBatching s \<longrightarrow> batchedUpdates w fn bookkeeping s = fn bookkeeping s) \<and>
   (\<not> isBatching s \<longrightarrow>
      fst (batchedUpdates w fn bookkeeping s) =
        (case check_throws w
                (host (snd (batchedUpdatesImpl w fn bookkeeping
                   (s\<lparr>isBatching := True, trace := trace s @ [SetIsBatching True]\<rparr>)))) of
           None \<Rightarrow>
             fst (batchedUpdatesImpl w fn bookkeeping
                    (s\<lparr>isBatching := True, trace := trace s @ [SetIsBatching True]\<rparr>))
         | Some e \<Rightarrow> Thrown e)) \<and>
   (\<not> isBatching s \<and>
    fst (batchedUpdatesImpl w fn bookkeeping
           (s\<lparr>isBatching := True, trace := trace s @ [SetIsBatching True]\<rparr>)) =
    fst (fn bookkeeping (s\<lparr>isBatching := True, trace := trace s @ [SetIsBatching True]\<rparr>)) \<and>
    check_throws w
      (host (snd (batchedUpdatesImpl w fn bookkeeping
         (s\<lparr>isBatching := True, trace := trace s @ [SetIsBatching True]\<rparr>)))) = None \<longrightarrow>
      fst (batchedUpdates w fn bookkeeping s) =
      fst (fn bookkeeping (s\<lparr>isBatching := True, trace := trace s @ [SetIsBatching True]\<rparr>))) \<and>
   batchedUpdatesImpl (default_wiring undef needs restore) fn bookkeeping = fn bookkeeping"
proof -
  let ?s1 = "s\<lparr>isBatching := True, trace := trace s @ [SetIsBatching True]\<rparr>"
  have outer: "fst (batchedUpdates w fn bookkeeping s) =
        (case check_throws w (host (snd (batchedUpdatesImpl w fn bookkeeping ?s1))) of
           None \<Rightarrow> fst (batchedUpdatesImpl w fn bookkeeping ?s1)
         | Some e \<Rightarrow> Thrown e)"
    if "\<not> isBatching s"
    using batchedUpdates_idle [OF that, of w fn bookkeeping
        "fst (batchedUpdatesImpl w fn bookkeeping ?s1)"
        "snd (batchedUpdatesImpl w fn bookkeeping ?s1)"]
    by simp
  have nested: "batchedUpdates w fn bookkeeping s = fn bookkeeping s" if "isBatching s"
    using that by (simp add: batchedUpdates_def)
  have d: "batchedUpdatesImpl (default_wiring undef needs restore) fn bookkeeping
      = fn bookkeeping"
    by (simp add: default_wiring_def)
  from outer nested d show ?thesis
    by simp
qed

text \<open>
  With the default wiring the function's result comes back, from idle and while
  batching, also through a wiring that would not pass it on from idle; a throw comes
  back as a throw; and when the restoration throws, its exception comes back instead
  of the function's result.
\<close>

theorem batchedUpdates_result_witness:
  "fst (batchedUpdates sample_wiring echo 7 idle) = Returned 7 \<and>
   fst (batchedUpdates constant_wiring echo 7 (idle\<lparr>isBatching := True\<rparr>)) = Returned 7 \<and>
   fst (batchedUpdates sample_wiring (\<lambda>b. exec (nested_throw b) sample_wiring) 6 idle) = Thrown 7 \<and>
   fst (batchedUpdates failing_wiring echo 7 idle) = Thrown 13"
  using batchedUpdates_result [of idle sample_wiring echo 7]
    batchedUpdates_result [of "idle\<lparr>isBatching := True\<rparr>" constant_wiring echo 7]
    batchedUpdates_result [of idle sample_wiring "\<lambda>b. exec (nested_throw b) sample_wiring" 6]
    batchedUpdates_result [of idle failing_wiring echo 7]
  by (simp add: sample_wiring_def failing_wiring_def default_wiring_def nested_throw_def
        idle_def echo_def batchedUpdates_def check_throws_def)

end
